theory Spec2Isabelle
  imports Complex_Main
begin

section \<open>BottomNavigation: constants\<close>

text \<open>
  The module-level constants of \<^verbatim>\<open>src/components/BottomNavigation.js\<close>. JavaScript
  numbers that the component only compares, negates or doubles are integers here;
  fractional constants and quotients are exact rationals.
\<close>

definition MIN_RIPPLE_SCALE :: rat where
  "MIN_RIPPLE_SCALE = 1 / 1000"

definition MIN_SHIFT_AMOUNT :: int where
  "MIN_SHIFT_AMOUNT = 10"

definition ACTIVE_LABEL_SIZE :: rat where
  "ACTIVE_LABEL_SIZE = 14"

definition INACTIVE_LABEL_SIZE :: rat where
  "INACTIVE_LABEL_SIZE = 12"

section \<open>The shift of a tab item\<close>

text \<open>
  \<^verbatim>\<open>_calculateShift = (activeIndex, currentIndex, numberOfItems) => ...\<close>
  The source's chain of early returns is kept in its order: the test for the first tab
  comes before the test for the last tab, and the final \<^verbatim>\<open>return 0\<close> is reached by
  every input that no earlier branch returned from.
\<close>

definition calculateShift :: "int \<Rightarrow> int \<Rightarrow> int \<Rightarrow> int" where
  "calculateShift activeIndex currentIndex numberOfItems =
     (if activeIndex < currentIndex then 2 * MIN_SHIFT_AMOUNT
      else if activeIndex > currentIndex then - 2 * MIN_SHIFT_AMOUNT
      else if activeIndex = currentIndex \<and> currentIndex = 0 then MIN_SHIFT_AMOUNT
      else if activeIndex = currentIndex \<and> currentIndex = numberOfItems - 1
           then - MIN_SHIFT_AMOUNT
      else 0)"

section \<open>JavaScript values\<close>

text \<open>
  A prop whose run-time type the component inspects is a tagged JavaScript value.
  A value that may be \<^verbatim>\<open>undefined\<close> is an \<open>option\<close>, \<open>None\<close> standing for
  \<^verbatim>\<open>undefined\<close>.
\<close>

datatype jsval = Undefined | Null | Boolean bool | Number int | String string

fun typeof :: "jsval \<Rightarrow> string" where
  "typeof Undefined = ''undefined''"
| "typeof Null = ''object''"
| "typeof (Boolean b) = ''boolean''"
| "typeof (Number n) = ''number''"
| "typeof (String s) = ''string''"

fun truthy :: "jsval \<Rightarrow> bool" where
  "truthy Undefined = False"
| "truthy Null = False"
| "truthy (Boolean b) = b"
| "truthy (Number n) = (n \<noteq> 0)"
| "truthy (String s) = (s \<noteq> [])"

text \<open>
  \<^verbatim>\<open>xs[i]\<close> on an array: an index outside the array reads \<^verbatim>\<open>undefined\<close>.
\<close>

definition js_nth :: "'a list \<Rightarrow> int \<Rightarrow> 'a option" where
  "js_nth xs i = (if 0 \<le> i \<and> i < int (length xs) then Some (xs ! nat i) else None)"

text \<open>
  \<^verbatim>\<open>Array.prototype.findIndex\<close>: the index of the first element that satisfies the
  predicate, and \<open>- 1\<close> when there is none.
\<close>

fun findIndex_from :: "('a \<Rightarrow> bool) \<Rightarrow> 'a list \<Rightarrow> int \<Rightarrow> int" where
  "findIndex_from P [] i = - 1"
| "findIndex_from P (x # xs) i = (if P x then i else findIndex_from P xs (i + 1))"

definition findIndex :: "('a \<Rightarrow> bool) \<Rightarrow> 'a list \<Rightarrow> int" where
  "findIndex P xs = findIndex_from P xs 0"

section \<open>Routes, navigation state and props\<close>

text \<open>
  \<^verbatim>\<open>type Route = { key: string, title?: string, icon?: IconSource, color?: string }\<close>
  and \<^verbatim>\<open>type NavigationState<T> = { index: number, routes: Array<T> }\<close>.
\<close>

record route =
  key :: string
  title :: "string option"
  icon :: "string option"
  color :: "string option"

record navigation_state =
  index :: int
  routes :: "route list"

text \<open>
  The style object of the bar, after \<^verbatim>\<open>StyleSheet.flatten\<close>: the component reads its
  \<^verbatim>\<open>backgroundColor\<close> only.
\<close>

record style =
  backgroundColor :: "string option"

text \<open>
  \<^verbatim>\<open>type Theme\<close> as the component uses it: \<^verbatim>\<open>theme.dark\<close> and the object
  \<^verbatim>\<open>theme.colors\<close>, a mapping from colour names to colour strings. A theme without
  the \<^verbatim>\<open>colors\<close> object has \<open>colors = None\<close>; a colour absent from the object is
  \<open>None\<close> under its name.
\<close>

record theme =
  dark :: jsval
  colors :: "(string \<rightharpoonup> string) option"

text \<open>
  The props. The callbacks \<^verbatim>\<open>onIndexChange\<close>, \<^verbatim>\<open>onTabPress\<close>, \<^verbatim>\<open>renderIcon\<close> and
  \<^verbatim>\<open>renderLabel\<close> are opaque functions of the embedding application: the model records
  each call with its arguments, and keeps for an optional callback whether the prop is
  set. \<^verbatim>\<open>getLabelText\<close> is a function of the route; \<^verbatim>\<open>getColor\<close> is a function of
  the route that \<^verbatim>\<open>render\<close> passes, which is \<^verbatim>\<open>undefined\<close> when the index of the
  navigation state addresses no route.
\<close>

record props =
  shifting :: jsval
  navigationState :: navigation_state
  renderIcon :: bool
  renderLabel :: bool
  getLabelText :: "(route \<Rightarrow> string option) option"
  getColor :: "(route option \<Rightarrow> string option) option"
  onTabPress :: bool
  barStyle :: "style option"
  theme :: theme

section \<open>Animated values\<close>

text \<open>
  A style value is a plain number, an \<^verbatim>\<open>Animated.Value\<close> (with the number it holds) or
  an interpolation of an animated value over an input and an output range.
\<close>

datatype anim =
    Plain rat
  | AnimatedValue rat
  | Interpolation anim "rat list" "rat list"

text \<open>
  The component only builds these values; the host framework evaluates them. It
  evaluates an interpolation linearly between neighbouring points of its ranges,
  extending the first and the last segment, and rejects ranges of different lengths or
  with fewer than two points. \<open>anim_value\<close> is that evaluation, on exact rationals.
  The interpolations over literal ranges are well formed; the one whose ranges depend
  on the routes is checked by the host when \<^verbatim>\<open>render\<close> builds it.
\<close>

definition interpolate_linear :: "rat \<Rightarrow> rat \<Rightarrow> rat \<Rightarrow> rat \<Rightarrow> rat \<Rightarrow> rat" where
  "interpolate_linear inputMin inputMax outputMin outputMax x =
     (if outputMin = outputMax then outputMin
      else if inputMin = inputMax then (if x \<le> inputMin then outputMin else outputMax)
      else outputMin + (x - inputMin) / (inputMax - inputMin) * (outputMax - outputMin))"

fun interpolate_segments :: "rat list \<Rightarrow> rat list \<Rightarrow> rat \<Rightarrow> rat" where
  "interpolate_segments (i0 # i1 # i2 # ins) (o0 # o1 # o2 # outs) x =
     (if x \<le> i1 then interpolate_linear i0 i1 o0 o1 x
      else interpolate_segments (i1 # i2 # ins) (o1 # o2 # outs) x)"
| "interpolate_segments (i0 # i1 # ins) (o0 # o1 # outs) x = interpolate_linear i0 i1 o0 o1 x"
| "interpolate_segments ins outs x = x"

definition interpolate :: "rat list \<Rightarrow> rat list \<Rightarrow> rat \<Rightarrow> rat option" where
  "interpolate inputRange outputRange x =
     (if length inputRange = length outputRange \<and> 2 \<le> length inputRange
      then Some (interpolate_segments inputRange outputRange x) else None)"

fun anim_value :: "anim \<Rightarrow> rat option" where
  "anim_value (Plain x) = Some x"
| "anim_value (AnimatedValue x) = Some x"
| "anim_value (Interpolation a inputRange outputRange) =
     (case anim_value a of None \<Rightarrow> None | Some x \<Rightarrow> interpolate inputRange outputRange x)"

section \<open>Component state\<close>

text \<open>
  \<^verbatim>\<open>type State\<close>; the field \<^verbatim>\<open>index\<close> of the state is \<open>index_value\<close> here, the name
  \<open>index\<close> being the navigation state's.
\<close>

record layout =
  height :: rat
  width :: rat
  measured :: bool

record state =
  tabs :: "anim list"
  shifts :: "anim list"
  index_value :: anim
  ripple :: anim
  touch :: anim
  layout :: layout
  previous :: int

text \<open>
  The constructor: one active value per route (1 for the active route, 0 for the others)
  and one shift per route.
\<close>

definition constructor :: "props \<Rightarrow> state" where
  "constructor props =
     (let routes = routes (navigationState props); index = index (navigationState props) in
      \<lparr>tabs = map (\<lambda>i. AnimatedValue (if int i = index then 1 else 0)) [0..<length routes],
       shifts = map (\<lambda>i. AnimatedValue
                  (of_int (calculateShift index (int i) (int (length routes)))))
                  [0..<length routes],
       index_value = AnimatedValue (of_int index),
       ripple = AnimatedValue MIN_RIPPLE_SCALE,
       touch = AnimatedValue MIN_RIPPLE_SCALE,
       layout = \<lparr>height = 0, width = 0, measured = False\<rparr>,
       previous = 0\<rparr>)"

section \<open>Tab presses and jumps\<close>

text \<open>
  What a handler does is the list of its calls, in order: on the \<^verbatim>\<open>touch\<close> value of the
  state, on the animation it starts, and on the callbacks of the props.
\<close>

datatype call =
    TouchSetValue rat
  | TouchTimingStart rat nat
  | is_OnIndexChange: OnIndexChange int
  | is_OnTabPress: OnTabPress "route option" bool

text \<open>
  \<^verbatim>\<open>_handleTabPress = (index: number) => ...\<close>
\<close>

definition handleTabPress :: "props \<Rightarrow> int \<Rightarrow> call list" where
  "handleTabPress props i =
     (let navigationState = navigationState props in
      [TouchSetValue MIN_RIPPLE_SCALE, TouchTimingStart 1 300]
      @ (if i \<noteq> index navigationState then [OnIndexChange i] else [])
      @ (if onTabPress props
         then (let route = js_nth (routes navigationState) i in
               [OnTabPress route (index navigationState = i)])
         else []))"

text \<open>
  \<^verbatim>\<open>_jumpTo = (key: string) => ...\<close>
\<close>

definition jumpTo :: "props \<Rightarrow> string \<Rightarrow> call list" where
  "jumpTo props k =
     (let index = findIndex (\<lambda>route. key route = k) (routes (navigationState props)) in
      [OnIndexChange index])"

section \<open>Rendering: the display mode\<close>

text \<open>
  \<^verbatim>\<open>const shifting = typeof this.props.shifting === 'boolean'
      ? this.props.shifting : routes.length > 3;\<close>
  In the first branch the prop is a boolean, and its truth value is the boolean itself.
\<close>

definition render_shifting :: "props \<Rightarrow> bool" where
  "render_shifting props =
     (if typeof (shifting props) = ''boolean'' then truthy (shifting props)
      else length (routes (navigationState props)) > 3)"

section \<open>Rendering: colours\<close>

text \<open>
  Reading a property of \<^verbatim>\<open>undefined\<close> throws a \<^verbatim>\<open>TypeError\<close>; the colour utility
  and the host framework may throw errors of their own. A computation that may throw
  returns a sum, the error on the left.
\<close>

datatype error = TypeError string | ColorError string | HostError string

definition and_then :: "error + 'a \<Rightarrow> ('a \<Rightarrow> error + 'b) \<Rightarrow> error + 'b" where
  "and_then r f = (case r of Inl e \<Rightarrow> Inl e | Inr v \<Rightarrow> f v)"

text \<open>
  \<^verbatim>\<open>xs.map(f)\<close> where \<open>f\<close> may throw: the first error ends the traversal.
\<close>

fun map_result :: "('a \<Rightarrow> error + 'b) \<Rightarrow> 'a list \<Rightarrow> error + 'b list" where
  "map_result f [] = Inr []"
| "map_result f (x # xs) =
     and_then (f x) (\<lambda>y. and_then (map_result f xs) (\<lambda>ys. Inr (y # ys)))"







datatype background =
    Color "string option"
  | ColorInterpolation anim "rat list" "string option list"

record bar_colors =
  approxBackgroundColor :: "string option"
  bar_backgroundColor :: background
  isDark :: bool
  textColor :: string
  activeColor :: "string option"
  inactiveColor :: string
  touchColor :: string



section \<open>Rendering: the tab items\<close>

text \<open>
  The children of a wrapper view: what a render callback was called with
  (\<^verbatim>\<open>{ route, focused, tintColor }\<close>), or the default element with its colour and its
  icon name or label text.
\<close>

datatype node =
    RenderIcon route bool "string option"
  | Icon "string option" "string option"
  | RenderLabel route bool "string option"
  | AnimatedText "string option" "string option"

record wrapper =
  opacity :: anim
  child :: node

record tab_item =
  item_key :: string
  translateX :: "anim option"
  translateY :: anim
  scale :: anim
  activeIcon :: wrapper
  inactiveIcon :: "wrapper option"
  activeLabel :: wrapper
  inactiveLabel :: "wrapper option"

text \<open>
  The body of \<^verbatim>\<open>routes.map((route, index) => ...)\<close> for the tab items; it sees
  the colours that \<^verbatim>\<open>render\<close> derived before.
  \<^verbatim>\<open>this.state.tabs[index]\<close> outside the array is \<^verbatim>\<open>undefined\<close>, and calling
  \<^verbatim>\<open>interpolate\<close> on it throws; \<^verbatim>\<open>this.state.shifts[index]\<close> is only passed on.
  In shifting mode the wrappers of the inactive icon and label are \<^verbatim>\<open>null\<close>.
\<close>

definition render_item :: "props \<Rightarrow> state \<Rightarrow> bar_colors \<Rightarrow> route \<Rightarrow> nat \<Rightarrow> error + tab_item" where
  "render_item props st c r i =
     (let route = r;
          getLabelText = (case getLabelText props of Some f \<Rightarrow> f | None \<Rightarrow> title);
          shifting = render_shifting props;
          activeColor = activeColor c;
          inactiveColor = inactiveColor c;
          shift = js_nth (shifts st) (int i)
      in
      case js_nth (tabs st) (int i) of
        None \<Rightarrow> Inl (TypeError ''Cannot read property interpolate of undefined'')
      | Some focused \<Rightarrow>
          (let scale = Interpolation focused [0, 1]
                 [if shifting then 1 / 2 else INACTIVE_LABEL_SIZE / ACTIVE_LABEL_SIZE, 1];
               translateY = Interpolation focused [0, 1] [if shifting then 10 else 2, 0];
               translateX = (if shifting then shift else Some (Plain 0));
               inactiveOpacity = Interpolation focused [0, 1] [1, 0];
               activeIconOpacity =
                 (if shifting then Interpolation focused [0, 1] [6 / 10, 1] else focused);
               activeLabelOpacity = focused;
               inactiveIconOpacity = inactiveOpacity;
               inactiveLabelOpacity = inactiveOpacity
           in
           Inr \<lparr>item_key = key route,
                translateX = translateX,
                translateY = translateY,
                scale = scale,
                activeIcon =
                  \<lparr>opacity = activeIconOpacity,
                   child = (if renderIcon props then RenderIcon route True activeColor
                            else Icon (icon route) activeColor)\<rparr>,
                inactiveIcon =
                  (if shifting then None
                   else Some
                     \<lparr>opacity = inactiveIconOpacity,
                      child = (if renderIcon props
                               then RenderIcon route False (Some inactiveColor)
                               else Icon (icon route) (Some inactiveColor))\<rparr>),
                activeLabel =
                  \<lparr>opacity = activeLabelOpacity,
                   child = (if renderLabel props then RenderLabel route True activeColor
                            else AnimatedText activeColor (getLabelText route))\<rparr>,
                inactiveLabel =
                  (if shifting then None
                   else Some
                     \<lparr>opacity = inactiveLabelOpacity,
                      child = (if renderLabel props
                               then RenderLabel route False (Some inactiveColor)
                               else AnimatedText (Some inactiveColor)
                                      (getLabelText route))\<rparr>)\<rparr>))"

definition render_items :: "props \<Rightarrow> state \<Rightarrow> bar_colors \<Rightarrow> error + tab_item list" where
  "render_items props st c =
     map_result (\<lambda>(i, route). render_item props st c route i)
       (enumerate 0 (routes (navigationState props)))"

section \<open>Rendering: the whole view\<close>

text \<open>
  The body of \<^verbatim>\<open>routes.map((route, index) => ...)\<close> for the scenes. The view takes
  \<^verbatim>\<open>this.state.tabs[index]\<close> for its opacity as it is; in shifting mode
  \<^verbatim>\<open>interpolate\<close> is called on it, which throws when it is \<^verbatim>\<open>undefined\<close>.
  \<^verbatim>\<open>renderScene\<close> is called with the route and with \<^verbatim>\<open>focused\<close>.
\<close>

record scene =
  scene_key :: string
  pointerEvents :: string
  scene_opacity :: "anim option"
  scene_translateY :: anim
  scene_focused :: bool


text \<open>
  The ripple of the background colour, rendered in shifting mode only, and the ripple of
  the touch feedback. Their position and size are arithmetic on the layout, which never
  throws, and are left out.
\<close>

record ripple_view =
  ripple_backgroundColor :: "string option"
  ripple_translateX :: "anim option"
  ripple_scale :: anim
  ripple_opacity :: anim



text \<open>
  \<^verbatim>\<open>render\<close>: the colour derivation, then the element tree from the outside in and
  from the first child to the last, as JavaScript evaluates it.
\<close>

record rendered =
  container_pointerEvents :: string
  content_style :: style
  scenes :: "scene list"
  bar :: bar_colors
  background_ripple :: "ripple_view option"
  touch_ripple :: ripple_view
  items :: "tab_item list"


section \<open>ListAccordion: colours\<close>

text \<open>
  Modelled from the spec: the theme that \<^verbatim>\<open>getAccordionColors\<close> receives, whose
  declaration is missing. The spec calls it a versioned mapping from semantic names to
  colour values; the tests of \<^verbatim>\<open>ListAccordion.test.js\<close> use a version-3 and a
  version-2 theme and read \<^verbatim>\<open>theme.colors\<close> by name.
\<close>

datatype version = V2 | V3

record versioned_theme =
  version :: version
  theme_colors :: "string \<rightharpoonup> string"

text \<open>
  Modelled from the spec: the record that \<^verbatim>\<open>getAccordionColors\<close> returns, whose
  declaration is missing: "a small record of display colors (title, description,
  title-text, ripple)".
\<close>

record accordion_colors =
  titleColor :: "string option"
  descriptionColor :: "string option"
  titleTextColor :: "string option"
  rippleColor :: string

text \<open>
  Modelled from the spec: \<^verbatim>\<open>getAccordionColors\<close> of \<^verbatim>\<open>src/components/List/utils\<close>,
  whose source is missing; its tests in \<^verbatim>\<open>ListAccordion.test.js\<close> are at hand.
  The spec describes a pure function of the theme and the expanded flag that selects
  between two theme-version colour formulas. The formulas are those the tests expect:
  the title and the description take \<^verbatim>\<open>onSurface\<close> and \<^verbatim>\<open>onSurfaceVariant\<close> in
  version 3 and \<^verbatim>\<open>text\<close> at alpha 0.87 and 0.54 in version 2; the title text takes
  \<^verbatim>\<open>primary\<close> when expanded and the title colour otherwise; the ripple is the title
  text colour at alpha 0.12. The colour utility is a parameter: \<open>alpha c a\<close> is
  \<^verbatim>\<open>color(c).alpha(a).rgb().string()\<close>.
\<close>

definition getAccordionColors ::
  "(string option \<Rightarrow> rat \<Rightarrow> string) \<Rightarrow> versioned_theme \<Rightarrow> bool \<Rightarrow> accordion_colors" where
  "getAccordionColors alpha t isExpanded =
     (let titleColor =
            (case version t of
               V3 \<Rightarrow> theme_colors t ''onSurface''
             | V2 \<Rightarrow> Some (alpha (theme_colors t ''text'') (87 / 100)));
          descriptionColor =
            (case version t of
               V3 \<Rightarrow> theme_colors t ''onSurfaceVariant''
             | V2 \<Rightarrow> Some (alpha (theme_colors t ''text'') (54 / 100)));
          titleTextColor = (if isExpanded then theme_colors t ''primary'' else titleColor);
          rippleColor = alpha titleTextColor (12 / 100)
      in \<lparr>titleColor = titleColor, descriptionColor = descriptionColor,
          titleTextColor = titleTextColor, rippleColor = rippleColor\<rparr>)"

section \<open>Examples\<close>

text \<open>
  The routes of the component's documentation, for evaluating the model.
\<close>

definition music :: route where
  "music = \<lparr>key = ''music'', title = Some ''Music'', icon = Some ''queue-music'',
            color = Some ''#3F51B5''\<rparr>"

definition albums :: route where
  "albums = \<lparr>key = ''albums'', title = Some ''Albums'', icon = Some ''album'',
             color = Some ''#009688''\<rparr>"

definition recents :: route where
  "recents = \<lparr>key = ''recents'', title = Some ''Recents'', icon = Some ''history'',
              color = Some ''#795548''\<rparr>"

definition purchased :: route where
  "purchased = \<lparr>key = ''purchased'', title = Some ''Purchased'',
                icon = Some ''shopping-cart'', color = Some ''#607D8B''\<rparr>"

definition example_theme :: theme where
  "example_theme =
     \<lparr>dark = Boolean False,
      colors = Some [''primary'' \<mapsto> ''#6200ee'', ''background'' \<mapsto> ''#f6f6f6'']\<rparr>"

definition example_props :: "jsval \<Rightarrow> int \<Rightarrow> route list \<Rightarrow> props" where
  "example_props s i rs =
     \<lparr>shifting = s, navigationState = \<lparr>index = i, routes = rs\<rparr>,
      renderIcon = False, renderLabel = False, getLabelText = None, getColor = None,
      onTabPress = True, barStyle = None, theme = example_theme\<rparr>"



definition example_colors :: bar_colors where
  "example_colors =
     \<lparr>approxBackgroundColor = Some ''#6200ee'',
      bar_backgroundColor = Color (Some ''#6200ee''),
      isDark = True, textColor = ''#ffffff'', activeColor = Some ''#ffffff'',
      inactiveColor = ''#ffffff'', touchColor = ''rgba(255, 255, 255, 0.12)''\<rparr>"






text \<open>
  An example alpha function and a theme of each version, for evaluating
  \<open>getAccordionColors\<close>.
\<close>

definition example_alpha :: "string option \<Rightarrow> rat \<Rightarrow> string" where
  "example_alpha c a =
     (case c of None \<Rightarrow> ''black'' | Some s \<Rightarrow> s)
     @ (if a = 87 / 100 then '' at 0.87'' else if a = 54 / 100 then '' at 0.54''
        else '' at 0.12'')"

definition example_v3 :: versioned_theme where
  "example_v3 =
     \<lparr>version = V3,
      theme_colors = [''primary'' \<mapsto> ''rgba(103, 80, 164, 1)'',
        ''onSurface'' \<mapsto> ''rgba(28, 27, 31, 1)'',
        ''onSurfaceVariant'' \<mapsto> ''rgba(73, 69, 79, 1)'']\<rparr>"

definition example_v2 :: versioned_theme where
  "example_v2 =
     \<lparr>version = V2, theme_colors = [''primary'' \<mapsto> ''#6200ee'', ''text'' \<mapsto> ''#000000'']\<rparr>"

section \<open>Properties of the shift\<close>

text \<open>
  C1 (as stated) fails for a bar with a single tab: the tab at index 0 is both the first
  and the last one (\<open>0 = 1 - 1\<close>), the test for the first tab returns first, and the
  shift is \<open>MIN_SHIFT_AMOUNT\<close>, not \<open>- MIN_SHIFT_AMOUNT\<close>.
\<close>

theorem calculateShift_single_tab_counterexample:
  "(0::int) = 0 \<and> (0::int) = 1 - 1 \<and> calculateShift 0 0 1 = 10
     \<and> calculateShift 0 0 1 \<noteq> - MIN_SHIFT_AMOUNT"
  by (simp add: calculateShift_def MIN_SHIFT_AMOUNT_def)

text \<open>
  C1 (amended): \<open>calculateShift\<close> is a three-way comparison of the active index with the
  current index. An active index below the current one gives \<open>2 * MIN_SHIFT_AMOUNT = 20\<close>,
  one above it gives \<open>- 2 * MIN_SHIFT_AMOUNT = - 20\<close>. When both are equal: index 0
  gives \<open>MIN_SHIFT_AMOUNT = 10\<close>; the last index \<open>numberOfItems - 1\<close>, when it is not
  also index 0, gives \<open>- MIN_SHIFT_AMOUNT = - 10\<close>; an index strictly between gives 0.
\<close>

theorem calculateShift_cases:
  "MIN_SHIFT_AMOUNT = 10
   \<and> (a < c \<longrightarrow> calculateShift a c n = 2 * MIN_SHIFT_AMOUNT \<and> calculateShift a c n = 20)
   \<and> (a > c \<longrightarrow> calculateShift a c n = - 2 * MIN_SHIFT_AMOUNT \<and> calculateShift a c n = - 20)
   \<and> (a = c \<and> c = 0 \<longrightarrow> calculateShift a c n = MIN_SHIFT_AMOUNT \<and> calculateShift a c n = 10)
   \<and> (a = c \<and> c = n - 1 \<and> c \<noteq> 0 \<longrightarrow>
        calculateShift a c n = - MIN_SHIFT_AMOUNT \<and> calculateShift a c n = - 10)
   \<and> (a = c \<and> 0 < c \<and> c < n - 1 \<longrightarrow> calculateShift a c n = 0)"
  by (simp add: calculateShift_def MIN_SHIFT_AMOUNT_def)

theorem calculateShift_cases_witness:
  "calculateShift 0 1 3 = 20 \<and> calculateShift 2 1 3 = - 20 \<and> calculateShift 0 0 3 = 10
   \<and> calculateShift 2 2 3 = - 10 \<and> calculateShift 1 1 3 = 0"
  using calculateShift_cases [of 0 1 3] calculateShift_cases [of 2 1 3]
    calculateShift_cases [of 0 0 3] calculateShift_cases [of 2 2 3]
    calculateShift_cases [of 1 1 3]
  by simp

text \<open>
  C2: whatever the three indices are, the shift is one of the five constants
  \<open>- 20, - 10, 0, 10, 20\<close>, that is \<open>- 2 * MIN_SHIFT_AMOUNT\<close>, \<open>- MIN_SHIFT_AMOUNT\<close>, 0,
  \<open>MIN_SHIFT_AMOUNT\<close> and \<open>2 * MIN_SHIFT_AMOUNT\<close> with \<open>MIN_SHIFT_AMOUNT = 10\<close>.
\<close>

theorem calculateShift_range:
  "calculateShift activeIndex currentIndex numberOfItems \<in> {- 20, - 10, 0, 10, 20}
   \<and> {- 20, - 10, 0, 10, 20} =
       {- 2 * MIN_SHIFT_AMOUNT, - MIN_SHIFT_AMOUNT, 0, MIN_SHIFT_AMOUNT, 2 * MIN_SHIFT_AMOUNT}"
  by (simp add: calculateShift_def MIN_SHIFT_AMOUNT_def)

section \<open>Properties of the display mode\<close>

text \<open>
  C8: when the \<^verbatim>\<open>shifting\<close> prop is not a boolean (for instance when it is omitted),
  shifting mode is on exactly when there are more than 3 routes; when the prop is a
  boolean, its value is used whatever the number of routes.
\<close>

theorem render_shifting_default:
  "(typeof (shifting props) \<noteq> ''boolean'' \<longrightarrow>
      render_shifting props = (length (routes (navigationState props)) > 3))
   \<and> (shifting props = Boolean b \<longrightarrow> render_shifting props = b)"
  by (simp add: render_shifting_def)

theorem render_shifting_default_witness:
  "typeof (shifting (example_props Undefined 0 [music, albums, recents, purchased]))
     \<noteq> ''boolean''
   \<and> render_shifting (example_props Undefined 0 [music, albums, recents, purchased])
   \<and> \<not> render_shifting (example_props Undefined 0 [music, albums, recents])
   \<and> \<not> render_shifting (example_props (Boolean False) 0 [music, albums, recents, purchased])
   \<and> render_shifting (example_props (Boolean True) 0 [music])"
  using render_shifting_default
      [of "example_props Undefined 0 [music, albums, recents, purchased]"]
    render_shifting_default [of "example_props Undefined 0 [music, albums, recents]"]
    render_shifting_default
      [of "example_props (Boolean False) 0 [music, albums, recents, purchased]" False]
    render_shifting_default [of "example_props (Boolean True) 0 [music]" True]
  by (simp add: example_props_def)

section \<open>Properties of the handlers\<close>

lemma findIndex_from_miss:
  "\<forall>x \<in> set xs. \<not> P x \<Longrightarrow> findIndex_from P xs i = - 1"
  by (induction xs arbitrary: i) auto

lemma findIndex_from_hit:
  "\<exists>x \<in> set xs. P x \<Longrightarrow>
   \<exists>j < length xs. findIndex_from P xs i = i + int j \<and> P (xs ! j) \<and> (\<forall>k < j. \<not> P (xs ! k))"
proof (induction xs arbitrary: i)
  case Nil
  then show ?case by simp
next
  case (Cons x xs)
  show ?case
  proof (cases "P x")
    case True
    then have "findIndex_from P (x # xs) i = i + int 0 \<and> P ((x # xs) ! 0)
               \<and> (\<forall>k < (0::nat). \<not> P ((x # xs) ! k))"
      by simp
    then show ?thesis by blast
  next
    case False
    with Cons.prems have "\<exists>y \<in> set xs. P y" by auto
    from Cons.IH [OF this, of "i + 1"] obtain j where j: "j < length xs"
      "findIndex_from P xs (i + 1) = i + 1 + int j" "P (xs ! j)" "\<forall>k < j. \<not> P (xs ! k)"
      by blast
    have "\<forall>k < Suc j. \<not> P ((x # xs) ! k)"
      using False j(4) by (auto simp: nth_Cons split: nat.splits)
    with False j have "Suc j < length (x # xs)
        \<and> findIndex_from P (x # xs) i = i + int (Suc j) \<and> P ((x # xs) ! Suc j)
        \<and> (\<forall>k < Suc j. \<not> P ((x # xs) ! k))"
      by simp
    then show ?thesis by blast
  qed
qed

text \<open>
  C10: for a key that no route of the navigation state bears, \<open>jumpTo\<close> calls
  \<^verbatim>\<open>onIndexChange\<close> once, with \<open>- 1\<close>; for a key that is present it calls it once, with
  the index of the first route that bears the key.
\<close>

theorem jumpTo_calls:
  "(k \<notin> key ` set (routes (navigationState props)) \<longrightarrow>
      jumpTo props k = [OnIndexChange (- 1)])
   \<and> (k \<in> key ` set (routes (navigationState props)) \<longrightarrow>
      (\<exists>i < length (routes (navigationState props)).
         jumpTo props k = [OnIndexChange (int i)]
         \<and> key (routes (navigationState props) ! i) = k
         \<and> (\<forall>j < i. key (routes (navigationState props) ! j) \<noteq> k)))"
proof (intro conjI impI)
  assume "k \<notin> key ` set (routes (navigationState props))"
  then have "\<forall>r \<in> set (routes (navigationState props)). \<not> key r = k" by auto
  from findIndex_from_miss [OF this]
  show "jumpTo props k = [OnIndexChange (- 1)]"
    by (simp add: jumpTo_def findIndex_def)
next
  assume "k \<in> key ` set (routes (navigationState props))"
  then have "\<exists>r \<in> set (routes (navigationState props)). key r = k" by auto
  from findIndex_from_hit [OF this, of 0]
  show "\<exists>i < length (routes (navigationState props)).
         jumpTo props k = [OnIndexChange (int i)]
         \<and> key (routes (navigationState props) ! i) = k
         \<and> (\<forall>j < i. key (routes (navigationState props) ! j) \<noteq> k)"
    by (simp add: jumpTo_def findIndex_def)
qed

theorem jumpTo_calls_witness:
  "''videos'' \<notin> key ` set (routes (navigationState (example_props Undefined 0 [music, albums, albums])))
   \<and> jumpTo (example_props Undefined 0 [music, albums, albums]) ''videos'' = [OnIndexChange (- 1)]
   \<and> ''albums'' \<in> key ` set (routes (navigationState (example_props Undefined 0 [music, albums, albums])))
   \<and> jumpTo (example_props Undefined 0 [music, albums, albums]) ''albums'' = [OnIndexChange 1]"
  using jumpTo_calls [of "''videos''" "example_props Undefined 0 [music, albums, albums]"]
    jumpTo_calls [of "''albums''" "example_props Undefined 0 [music, albums, albums]"]
  by (simp add: example_props_def music_def albums_def jumpTo_def findIndex_def)

text \<open>
  C9: a press on the tab at index \<open>i\<close> calls \<^verbatim>\<open>onIndexChange\<close> (once, with \<open>i\<close>)
  exactly when \<open>i\<close> differs from the index of the navigation state. When the prop
  \<^verbatim>\<open>onTabPress\<close> is set, every press calls it once, with the route at index \<open>i\<close> and
  with \<^verbatim>\<open>focused\<close> equal to whether \<open>i\<close> is the index of the navigation state; when it
  is not set, it is not called. A press on the active tab so calls \<^verbatim>\<open>onTabPress\<close> with
  \<^verbatim>\<open>focused\<close> true and does not call \<^verbatim>\<open>onIndexChange\<close>.
\<close>

theorem handleTabPress_calls:
  "(OnIndexChange i \<in> set (handleTabPress props i) \<longleftrightarrow> i \<noteq> index (navigationState props))
   \<and> filter is_OnIndexChange (handleTabPress props i) =
       (if i \<noteq> index (navigationState props) then [OnIndexChange i] else [])
   \<and> (onTabPress props \<longrightarrow>
        filter is_OnTabPress (handleTabPress props i) =
          [OnTabPress (js_nth (routes (navigationState props)) i)
             (index (navigationState props) = i)])
   \<and> (\<not> onTabPress props \<longrightarrow> filter is_OnTabPress (handleTabPress props i) = [])
   \<and> (onTabPress props \<and> i = index (navigationState props) \<longrightarrow>
        filter is_OnTabPress (handleTabPress props i) =
          [OnTabPress (js_nth (routes (navigationState props)) i) True]
        \<and> filter is_OnIndexChange (handleTabPress props i) = [])"
  by (simp add: handleTabPress_def Let_def)

theorem handleTabPress_calls_witness:
  "onTabPress (example_props Undefined 1 [music, albums, recents])
   \<and> index (navigationState (example_props Undefined 1 [music, albums, recents])) = 1
   \<and> handleTabPress (example_props Undefined 1 [music, albums, recents]) 1 =
       [TouchSetValue (1 / 1000), TouchTimingStart 1 300, OnTabPress (Some albums) True]
   \<and> handleTabPress (example_props Undefined 1 [music, albums, recents]) 2 =
       [TouchSetValue (1 / 1000), TouchTimingStart 1 300, OnIndexChange 2,
        OnTabPress (Some recents) False]
   \<and> \<not> onTabPress ((example_props Undefined 1 [music, albums, recents])\<lparr>onTabPress := False\<rparr>)
   \<and> handleTabPress
        ((example_props Undefined 1 [music, albums, recents])\<lparr>onTabPress := False\<rparr>) 0 =
       [TouchSetValue (1 / 1000), TouchTimingStart 1 300, OnIndexChange 0]"
  using handleTabPress_calls [of 1 "example_props Undefined 1 [music, albums, recents]"]
    handleTabPress_calls [of 2 "example_props Undefined 1 [music, albums, recents]"]
    handleTabPress_calls
      [of 0 "(example_props Undefined 1 [music, albums, recents])\<lparr>onTabPress := False\<rparr>"]
  by (simp add: example_props_def handleTabPress_def js_nth_def MIN_RIPPLE_SCALE_def)

section \<open>Properties of the tab items\<close>

lemma js_nth_in_range:
  "i < length xs \<Longrightarrow> js_nth xs (int i) = Some (xs ! i)"
  by (simp add: js_nth_def)

lemma constructor_tabs:
  "length (tabs (constructor props)) = length (routes (navigationState props))
   \<and> (\<forall>i < length (routes (navigationState props)).
        anim_value (tabs (constructor props) ! i) =
          Some (if int i = index (navigationState props) then 1 else 0))"
  by (simp add: constructor_def Let_def)

lemma scale_at_rest:
  "anim_value focused = Some 1 \<Longrightarrow>
     anim_value (Interpolation focused [0, 1] [1 / 2, 1]) = Some 1"
  "anim_value focused = Some 0 \<Longrightarrow>
     anim_value (Interpolation focused [0, 1] [1 / 2, 1]) = Some (1 / 2)"
  by (simp_all add: interpolate_def interpolate_linear_def)

lemma render_item_tab:
  assumes "i < length (tabs st)"
  shows "\<exists>item. render_item props st c r i = Inr item
    \<and> (inactiveLabel item = None \<longleftrightarrow> render_shifting props)
    \<and> opacity (activeLabel item) = tabs st ! i
    \<and> (render_shifting props \<longrightarrow>
         scale item = Interpolation (tabs st ! i) [0, 1] [1 / 2, 1]
         \<and> translateX item = js_nth (shifts st) (int i))"
  using assms by (simp add: render_item_def Let_def js_nth_in_range)

lemma map_result_pointwise:
  "(\<And>k. k < length xs \<Longrightarrow> \<exists>y. f (xs ! k) = Inr y \<and> Q k y) \<Longrightarrow>
   \<exists>ys. map_result f xs = Inr ys \<and> length ys = length xs \<and> (\<forall>k < length xs. Q k (ys ! k))"
proof (induction xs arbitrary: Q)
  case Nil
  then show ?case by simp
next
  case (Cons x xs)
  from Cons.prems [of 0] obtain y where y: "f x = Inr y" "Q 0 y" by auto
  have "\<exists>z. f (xs ! k) = Inr z \<and> Q (Suc k) z" if "k < length xs" for k
    using Cons.prems [of "Suc k"] that by simp
  from Cons.IH [of "\<lambda>k. Q (Suc k)", OF this] obtain ys where ys:
    "map_result f xs = Inr ys" "length ys = length xs" "\<forall>k < length xs. Q (Suc k) (ys ! k)"
    by blast
  have "\<forall>k < length (x # xs). Q k ((y # ys) ! k)"
    using y(2) ys(3) by (auto simp: nth_Cons split: nat.splits)
  with y(1) ys(1,2) have "map_result f (x # xs) = Inr (y # ys)
      \<and> length (y # ys) = length (x # xs) \<and> (\<forall>k < length (x # xs). Q k ((y # ys) ! k))"
    by (simp add: and_then_def)
  then show ?case by blast
qed

lemma render_items_tabs:
  assumes "length (tabs st) = length (routes (navigationState props))"
  shows "\<exists>items. render_items props st c = Inr items
     \<and> length items = length (routes (navigationState props))
     \<and> (\<forall>i < length (routes (navigationState props)).
          (inactiveLabel (items ! i) = None \<longleftrightarrow> render_shifting props)
          \<and> opacity (activeLabel (items ! i)) = tabs st ! i
          \<and> (render_shifting props \<longrightarrow>
               scale (items ! i) = Interpolation (tabs st ! i) [0, 1] [1 / 2, 1]
               \<and> translateX (items ! i) = js_nth (shifts st) (int i)))"
proof -
  let ?rs = "routes (navigationState props)"
  let ?f = "\<lambda>(i, route). render_item props st c route i"
  let ?Q = "\<lambda>i item. (inactiveLabel item = None \<longleftrightarrow> render_shifting props)
          \<and> opacity (activeLabel item) = tabs st ! i
          \<and> (render_shifting props \<longrightarrow>
               scale item = Interpolation (tabs st ! i) [0, 1] [1 / 2, 1]
               \<and> translateX item = js_nth (shifts st) (int i))"
  have "\<exists>y. ?f (enumerate 0 ?rs ! k) = Inr y \<and> ?Q k y" if "k < length (enumerate 0 ?rs)" for k
  proof -
    from that assms have k: "k < length (tabs st)" by simp
    from that have "enumerate 0 ?rs ! k = (k, ?rs ! k)" by (simp add: nth_enumerate_eq)
    with render_item_tab [OF k, of props c "?rs ! k"] show ?thesis by simp
  qed
  from map_result_pointwise [of "enumerate 0 ?rs" ?f ?Q, OF this]
  show ?thesis by (simp add: render_items_def)
qed

text \<open>
  C6: whenever the state holds one active value per route, as the state the constructor
  builds does, \<^verbatim>\<open>render\<close> gives one item per route, and the wrapper of the inactive
  label is present exactly when shifting mode is off: in shifting mode no tab has an
  inactive-state label. The opacity of the one label left is the tab's active value,
  which the constructor sets to 1 for the active tab and to 0 for every other tab. In
  shifting mode the label's scale interpolates the active value from 0.5 (at 0) to 1
  (at 1), so the active tab's label has scale 1 and an inactive tab's label scale 0.5,
  and the item is moved by the tab's shift.
\<close>

theorem shifting_labels:
  "length (tabs (constructor props)) = length (routes (navigationState props))
   \<and> (\<forall>i < length (routes (navigationState props)).
        anim_value (tabs (constructor props) ! i) =
          Some (if int i = index (navigationState props) then 1 else 0))
   \<and> (length (tabs st) = length (routes (navigationState props)) \<longrightarrow>
       (\<exists>items. render_items props st c = Inr items
         \<and> length items = length (routes (navigationState props))
         \<and> (\<forall>i < length (routes (navigationState props)).
              (inactiveLabel (items ! i) = None \<longleftrightarrow> render_shifting props)
              \<and> opacity (activeLabel (items ! i)) = tabs st ! i
              \<and> (render_shifting props \<longrightarrow>
                   scale (items ! i) = Interpolation (tabs st ! i) [0, 1] [1 / 2, 1]
                   \<and> (anim_value (tabs st ! i) = Some 1 \<longrightarrow>
                        anim_value (scale (items ! i)) = Some 1)
                   \<and> (anim_value (tabs st ! i) = Some 0 \<longrightarrow>
                        anim_value (scale (items ! i)) = Some (1 / 2))
                   \<and> translateX (items ! i) = js_nth (shifts st) (int i)))))"
proof (intro conjI impI)
  assume "length (tabs st) = length (routes (navigationState props))"
  from render_items_tabs [OF this, of c] obtain items where items:
    "render_items props st c = Inr items"
    "length items = length (routes (navigationState props))"
    "\<forall>i < length (routes (navigationState props)).
          (inactiveLabel (items ! i) = None \<longleftrightarrow> render_shifting props)
          \<and> opacity (activeLabel (items ! i)) = tabs st ! i
          \<and> (render_shifting props \<longrightarrow>
               scale (items ! i) = Interpolation (tabs st ! i) [0, 1] [1 / 2, 1]
               \<and> translateX (items ! i) = js_nth (shifts st) (int i))"
    by blast
  have "\<forall>i < length (routes (navigationState props)).
              (inactiveLabel (items ! i) = None \<longleftrightarrow> render_shifting props)
              \<and> opacity (activeLabel (items ! i)) = tabs st ! i
              \<and> (render_shifting props \<longrightarrow>
                   scale (items ! i) = Interpolation (tabs st ! i) [0, 1] [1 / 2, 1]
                   \<and> (anim_value (tabs st ! i) = Some 1 \<longrightarrow>
                        anim_value (scale (items ! i)) = Some 1)
                   \<and> (anim_value (tabs st ! i) = Some 0 \<longrightarrow>
                        anim_value (scale (items ! i)) = Some (1 / 2))
                   \<and> translateX (items ! i) = js_nth (shifts st) (int i))"
    using items(3) scale_at_rest by auto
  with items(1,2)
  show "\<exists>items. render_items props st c = Inr items
         \<and> length items = length (routes (navigationState props))
         \<and> (\<forall>i < length (routes (navigationState props)).
              (inactiveLabel (items ! i) = None \<longleftrightarrow> render_shifting props)
              \<and> opacity (activeLabel (items ! i)) = tabs st ! i
              \<and> (render_shifting props \<longrightarrow>
                   scale (items ! i) = Interpolation (tabs st ! i) [0, 1] [1 / 2, 1]
                   \<and> (anim_value (tabs st ! i) = Some 1 \<longrightarrow>
                        anim_value (scale (items ! i)) = Some 1)
                   \<and> (anim_value (tabs st ! i) = Some 0 \<longrightarrow>
                        anim_value (scale (items ! i)) = Some (1 / 2))
                   \<and> translateX (items ! i) = js_nth (shifts st) (int i)))"
    by blast
qed (simp_all add: constructor_tabs)

theorem shifting_labels_witness:
  "render_shifting (example_props Undefined 1 [music, albums, recents, purchased])
   \<and> length (tabs (constructor (example_props Undefined 1 [music, albums, recents, purchased])))
      = length (routes (navigationState
          (example_props Undefined 1 [music, albums, recents, purchased])))
   \<and> map_sum id (map inactiveLabel)
       (render_items (example_props Undefined 1 [music, albums, recents, purchased])
          (constructor (example_props Undefined 1 [music, albums, recents, purchased]))
          example_colors) = Inr [None, None, None, None]
   \<and> map_sum id (map (\<lambda>item. anim_value (opacity (activeLabel item))))
       (render_items (example_props Undefined 1 [music, albums, recents, purchased])
          (constructor (example_props Undefined 1 [music, albums, recents, purchased]))
          example_colors) = Inr [Some 0, Some 1, Some 0, Some 0]
   \<and> map_sum id (map (\<lambda>item. anim_value (scale item)))
       (render_items (example_props Undefined 1 [music, albums, recents, purchased])
          (constructor (example_props Undefined 1 [music, albums, recents, purchased]))
          example_colors) = Inr [Some (1 / 2), Some 1, Some (1 / 2), Some (1 / 2)]"
proof -
  have ev: "render_shifting (example_props Undefined 1 [music, albums, recents, purchased])
   \<and> length (tabs (constructor (example_props Undefined 1 [music, albums, recents, purchased])))
      = length (routes (navigationState
          (example_props Undefined 1 [music, albums, recents, purchased])))
   \<and> map_sum id (map inactiveLabel)
       (render_items (example_props Undefined 1 [music, albums, recents, purchased])
          (constructor (example_props Undefined 1 [music, albums, recents, purchased]))
          example_colors) = Inr [None, None, None, None]
   \<and> map_sum id (map (\<lambda>item. anim_value (opacity (activeLabel item))))
       (render_items (example_props Undefined 1 [music, albums, recents, purchased])
          (constructor (example_props Undefined 1 [music, albums, recents, purchased]))
          example_colors) = Inr [Some 0, Some 1, Some 0, Some 0]
   \<and> map_sum id (map (\<lambda>item. anim_value (scale item)))
       (render_items (example_props Undefined 1 [music, albums, recents, purchased])
          (constructor (example_props Undefined 1 [music, albums, recents, purchased]))
          example_colors) = Inr [Some (1 / 2), Some 1, Some (1 / 2), Some (1 / 2)]"
    by code_simp
  from shifting_labels
      [of "example_props Undefined 1 [music, albums, recents, purchased]"
        "constructor (example_props Undefined 1 [music, albums, recents, purchased])"
        example_colors] ev
  show ?thesis by blast
qed

section \<open>Properties of rendering with a malformed theme\<close>














section \<open>Properties of the accordion colours\<close>

text \<open>
  C3: for a theme in its non-expanded state, \<open>getAccordionColors\<close> returns the record
  that the theme version fixes. Version 3: the title colour and the title text colour
  are \<^verbatim>\<open>onSurface\<close>, the description colour is \<^verbatim>\<open>onSurfaceVariant\<close>, the ripple colour
  is \<^verbatim>\<open>onSurface\<close> at alpha 0.12. Version 2: the title colour and the title text colour
  are \<^verbatim>\<open>text\<close> at alpha 0.87, the description colour is \<^verbatim>\<open>text\<close> at alpha 0.54, the
  ripple colour is that 0.87-alpha text colour at alpha 0.12.
\<close>

theorem getAccordionColors_collapsed:
  "(version t = V3 \<longrightarrow>
      getAccordionColors alpha t False =
        \<lparr>titleColor = theme_colors t ''onSurface'',
         descriptionColor = theme_colors t ''onSurfaceVariant'',
         titleTextColor = theme_colors t ''onSurface'',
         rippleColor = alpha (theme_colors t ''onSurface'') (12 / 100)\<rparr>)
   \<and> (version t = V2 \<longrightarrow>
      getAccordionColors alpha t False =
        \<lparr>titleColor = Some (alpha (theme_colors t ''text'') (87 / 100)),
         descriptionColor = Some (alpha (theme_colors t ''text'') (54 / 100)),
         titleTextColor = Some (alpha (theme_colors t ''text'') (87 / 100)),
         rippleColor = alpha (Some (alpha (theme_colors t ''text'') (87 / 100))) (12 / 100)\<rparr>)"
  by (simp add: getAccordionColors_def Let_def)

theorem getAccordionColors_collapsed_witness:
  "version example_v3 = V3
   \<and> getAccordionColors example_alpha example_v3 False =
       \<lparr>titleColor = Some ''rgba(28, 27, 31, 1)'',
        descriptionColor = Some ''rgba(73, 69, 79, 1)'',
        titleTextColor = Some ''rgba(28, 27, 31, 1)'',
        rippleColor = ''rgba(28, 27, 31, 1) at 0.12''\<rparr>
   \<and> version example_v2 = V2
   \<and> getAccordionColors example_alpha example_v2 False =
       \<lparr>titleColor = Some ''#000000 at 0.87'',
        descriptionColor = Some ''#000000 at 0.54'',
        titleTextColor = Some ''#000000 at 0.87'',
        rippleColor = ''#000000 at 0.87 at 0.12''\<rparr>"
  using getAccordionColors_collapsed [of example_v3 example_alpha]
    getAccordionColors_collapsed [of example_v2 example_alpha]
  by (simp add: example_v3_def example_v2_def example_alpha_def)

text \<open>
  C4: for every theme, of either version, \<open>getAccordionColors\<close> with the expanded flag
  set returns \<^verbatim>\<open>primary\<close> as the title text colour and \<^verbatim>\<open>primary\<close> at alpha 0.12 as
  the ripple colour.
\<close>

theorem getAccordionColors_expanded:
  "titleTextColor (getAccordionColors alpha t True) = theme_colors t ''primary''
   \<and> rippleColor (getAccordionColors alpha t True) = alpha (theme_colors t ''primary'') (12 / 100)"
  by (simp add: getAccordionColors_def Let_def)

end
